theory Spec2Isabelle
  imports Main "HOL-Library.Signed_Division"
begin

section \<open>Integer arithmetic and arrays of the C source\<close>

text \<open>
  The model follows \<^verbatim>\<open>src/build/pkgs/palp/patches/Polynf.c\<close>.
  The types \<open>Long\<close> and \<open>GL_Long\<close> are declared in \<open>Global.h\<close>; the specification's
  data model takes lattice coordinates as arbitrary-size integers, so they are \<open>int\<close>
  here. C's \<open>/\<close> and \<open>%\<close> truncate towards zero: they are \<open>sdiv\<close> and \<open>smod\<close>.
  A C array is the list of its cells in use (a \<open>d \<times> v\<close> block of
  \<open>Long X[POLY_Dmax][VERT_Nmax]\<close> is a list of \<open>d\<close> rows of length \<open>v\<close>); the capacities
  \<open>POLY_Dmax\<close> and \<open>VERT_Nmax\<close> of \<open>Global.h\<close> are not modelled. A cell that the C code
  leaves uninitialised holds \<open>undefined\<close>. \<open>exit(0)\<close> is the result \<open>Inl Exit\<close>, a failed
  \<open>assert\<close> is \<open>Inl AssertionFailed\<close>, and a read or division the C standard leaves
  undefined (a column beyond \<open>*nv\<close>, a zero divisor) is \<open>Inl UndefinedBehaviour\<close>.
\<close>


type_synonym Long = int
type_synonym GL_Long = int
type_synonym mat = "int list list"

datatype error = Exit | AssertionFailed | UndefinedBehaviour

definition upd2 :: "'a list list \<Rightarrow> nat \<Rightarrow> nat \<Rightarrow> 'a \<Rightarrow> 'a list list" where
  "upd2 M i j v = M[i := (M ! i)[j := v]]"

fun foldE :: "('i \<Rightarrow> 's \<Rightarrow> error + 's) \<Rightarrow> 'i list \<Rightarrow> 's \<Rightarrow> error + 's" where
  "foldE f [] s = Inr s"
| "foldE f (x # xs) s = (case f x s of Inl e \<Rightarrow> Inl e | Inr s' \<Rightarrow> foldE f xs s')"

definition GL_RoundQ :: "GL_Long \<Rightarrow> GL_Long \<Rightarrow> GL_Long" where
  "GL_RoundQ N D =
     (let D' = (if D < 0 then - D else D);
          N' = (if D < 0 then - N else N);
          F = N' sdiv D'
      in F + (2 * (N' - F * D')) sdiv D')"

lemma smod_abs_less: "b \<noteq> 0 \<Longrightarrow> \<bar>(a::int) smod b\<bar> < \<bar>b\<bar>"
  by (simp add: signed_modulo_int_def abs_mult abs_sgn_eq)

function Egcd_loop :: "GL_Long \<Rightarrow> GL_Long \<Rightarrow> GL_Long \<Rightarrow> GL_Long \<Rightarrow> (GL_Long \<times> GL_Long) option" where
  "Egcd_loop A0 A1 X0 X1 =
     (if A1 = 0 then None
      else if A0 smod A1 \<noteq> 0
        then Egcd_loop A1 (A0 smod A1) X1 (X0 - X1 * (A0 sdiv A1))
        else Some (A1, X1))"
  by pat_completeness auto
termination
  by (relation "measure (\<lambda>(A0, A1, X0, X1). nat \<bar>A1\<bar>)") (auto simp: smod_abs_less)

declare Egcd_loop.simps [simp del]

definition GL_Egcd :: "GL_Long \<Rightarrow> GL_Long \<Rightarrow> (GL_Long \<times> GL_Long \<times> GL_Long) option" where
  "GL_Egcd A0 A1 =
     (case Egcd_loop A0 A1 1 0 of
        None \<Rightarrow> None
      | Some (g, X1) \<Rightarrow> Some (g, X1, (g - A0 * X1) sdiv A1))"



definition sub_entry :: "GL_Long \<Rightarrow> nat \<Rightarrow> nat \<Rightarrow> nat \<Rightarrow> mat \<Rightarrow> mat" where
  "sub_entry r t y n M = upd2 M t n (M ! t ! n - r * M ! y ! n)"

definition improve_entry :: "nat \<Rightarrow> nat \<Rightarrow> GL_Long \<Rightarrow> GL_Long \<Rightarrow> nat \<Rightarrow> mat \<Rightarrow> mat" where
  "improve_entry i j rB rE n M = sub_entry rE 0 j n (sub_entry rB i j n M)"

definition improve :: "nat \<Rightarrow> nat \<Rightarrow> mat \<Rightarrow> error + mat" where
  "improve i j GLZ =
     (if GLZ ! j ! j = 0 then Inl UndefinedBehaviour
      else Inr (fold (improve_entry i j (GL_RoundQ (GLZ ! i ! j) (GLZ ! j ! j))
                        (GL_RoundQ (GLZ ! 0 ! j) (GLZ ! j ! j)))
                  [0..<Suc j] GLZ))"

definition base_entry :: "nat \<Rightarrow> GL_Long \<Rightarrow> nat \<Rightarrow> mat \<Rightarrow> mat" where
  "base_entry i G j M = upd2 M i j (- (M ! 0 ! j) * G)"

definition scale_entry :: "GL_Long \<Rightarrow> nat \<Rightarrow> mat \<Rightarrow> mat" where
  "scale_entry a j M = upd2 M 0 j (M ! 0 ! j * a)"

fun pair_gcd :: "GL_Long \<Rightarrow> error + mat \<Rightarrow> error + GL_Long \<times> mat" where
  "pair_gcd g (Inl e) = Inl e"
| "pair_gcd g (Inr M) = Inr (g, M)"

fun GLZ_line_aux :: "int list \<Rightarrow> nat \<Rightarrow> GL_Long \<Rightarrow> mat \<Rightarrow> (GL_Long \<times> GL_Long \<times> GL_Long) option
    \<Rightarrow> error + (GL_Long \<times> mat)" where
  "GLZ_line_aux W i G GLZ None = Inl UndefinedBehaviour"
| "GLZ_line_aux W i G GLZ (Some (g, a, b)) =
     pair_gcd g
       (foldE (improve i) (rev [1..<i])
          (upd2
             (fold (scale_entry a) [0..<i]
                (fold (base_entry i (W ! i sdiv g)) [0..<i] (upd2 GLZ i i (G sdiv g))))
             0 i b))"

fun GLZ_line :: "int list \<Rightarrow> nat \<Rightarrow> GL_Long \<times> mat \<Rightarrow> error + (GL_Long \<times> mat)" where
  "GLZ_line W i (G, GLZ) = GLZ_line_aux W i G GLZ (GL_Egcd G (W ! i))"

fun GLZ_init :: "int list \<Rightarrow> nat \<Rightarrow> (GL_Long \<times> GL_Long \<times> GL_Long) option
    \<Rightarrow> error + (GL_Long \<times> mat)" where
  "GLZ_init W d None = Inl UndefinedBehaviour"
| "GLZ_init W d (Some (G, e0, e1)) =
     Inr (G, upd2 (upd2 (upd2 (upd2
            (replicate d undefined # replicate (d - 1) (replicate d 0))
            0 0 e0) 0 1 e1) 1 0 ((- (W ! 1)) sdiv G)) 1 1 (W ! 0 sdiv G))"

fun bindE :: "error + 'a \<Rightarrow> ('a \<Rightarrow> error + 'b) \<Rightarrow> error + 'b" where
  "bindE (Inl e) f = Inl e"
| "bindE (Inr x) f = f x"

definition GL_W_to_GLZ :: "int list \<Rightarrow> nat \<Rightarrow> error + (GL_Long \<times> mat)" where
  "GL_W_to_GLZ W d =
     (if list_ex (\<lambda>i. W ! i = 0) [0..<d] then Inl AssertionFailed
      else if d < 2 then Inl UndefinedBehaviour
      else bindE (GLZ_init W d (GL_Egcd (W ! 0) (W ! 1))) (foldE (GLZ_line W) [2..<d]))"

definition add_term :: "mat \<Rightarrow> mat \<Rightarrow> nat \<Rightarrow> nat \<Rightarrow> nat \<Rightarrow> mat \<Rightarrow> mat" where
  "add_term G X C i j NF = upd2 NF i C (NF ! i ! C + G ! i ! j * X ! j ! C)"

definition add_line :: "nat \<Rightarrow> mat \<Rightarrow> mat \<Rightarrow> nat \<Rightarrow> nat \<Rightarrow> mat \<Rightarrow> mat" where
  "add_line n G X C i NF = fold (add_term G X C i) [0..<n] NF"

definition add_column :: "nat \<Rightarrow> mat \<Rightarrow> mat \<Rightarrow> nat \<Rightarrow> mat \<Rightarrow> mat" where
  "add_column n G X C NF = fold (add_line n G X C) [0..<n] NF"

definition nonzero_lines :: "nat \<Rightarrow> nat \<Rightarrow> mat \<Rightarrow> nat \<Rightarrow> nat list" where
  "nonzero_lines L n NF C = filter (\<lambda>i. NF ! i ! C \<noteq> 0) [L..<n]"

function find_column ::
  "nat \<Rightarrow> nat \<Rightarrow> nat \<Rightarrow> mat \<Rightarrow> mat \<Rightarrow> mat \<Rightarrow> nat \<Rightarrow> error + (mat \<times> nat \<times> nat list)" where
  "find_column n nv L X G NF C =
     (if nv \<le> C then Inl UndefinedBehaviour
      else if nonzero_lines L n (add_column n G X C NF) C = []
        then find_column n nv L X G (add_column n G X C NF) (Suc C)
        else Inr (add_column n G X C NF, C, nonzero_lines L n (add_column n G X C NF) C))"
  by pat_completeness auto
termination
  by (relation "measure (\<lambda>(n, nv, L, X, G, NF, C). nv - C)") auto

declare find_column.simps [simp del]

definition acc_entry :: "mat \<Rightarrow> nat list \<Rightarrow> nat \<Rightarrow> GL_Long list \<Rightarrow> nat \<Rightarrow> nat \<Rightarrow> mat \<Rightarrow> mat" where
  "acc_entry GLZ p i Cp j k G = upd2 G (p ! j) i (G ! (p ! j) ! i + GLZ ! j ! k * Cp ! k)"

definition apply_entry :: "mat \<Rightarrow> nat list \<Rightarrow> nat \<Rightarrow> GL_Long list \<Rightarrow> nat \<Rightarrow> mat \<Rightarrow> mat" where
  "apply_entry GLZ p i Cp j G =
     fold (acc_entry GLZ p i Cp j) [0..<length p] (upd2 G (p ! j) i 0)"

definition apply_column :: "mat \<Rightarrow> nat list \<Rightarrow> nat \<Rightarrow> mat \<Rightarrow> mat" where
  "apply_column GLZ p i G =
     fold (apply_entry GLZ p i (map (\<lambda>j. G ! (p ! j) ! i) [0..<length p])) [0..<length p] G"

definition apply_GLZ :: "nat \<Rightarrow> mat \<Rightarrow> nat list \<Rightarrow> mat \<Rightarrow> mat" where
  "apply_GLZ n GLZ p G = fold (apply_column GLZ p) [0..<n] G"

definition swap_entry :: "nat \<Rightarrow> nat \<Rightarrow> nat \<Rightarrow> mat \<Rightarrow> mat" where
  "swap_entry L q i G = upd2 (upd2 G L i (G ! q ! i)) q i (G ! L ! i)"

definition swap_lines :: "nat \<Rightarrow> nat \<Rightarrow> nat \<Rightarrow> mat \<Rightarrow> mat" where
  "swap_lines n L q G = (if L \<noteq> q then fold (swap_entry L q) [0..<n] G else G)"

definition floor_quot :: "GL_Long \<Rightarrow> GL_Long \<Rightarrow> GL_Long" where
  "floor_quot a b = (if a - (a sdiv b) * b < 0 then a sdiv b - 1 else a sdiv b)"

definition reduce_with :: "nat \<Rightarrow> nat \<Rightarrow> nat \<Rightarrow> nat \<Rightarrow> mat \<Rightarrow> mat \<Rightarrow> GL_Long \<Rightarrow> mat \<times> mat" where
  "reduce_with n L C i NF G R =
     (upd2 NF i C (NF ! i ! C - R * NF ! L ! C), fold (sub_entry R i L) [0..<n] G)"

fun reduce_above :: "nat \<Rightarrow> nat \<Rightarrow> nat \<Rightarrow> nat \<Rightarrow> mat \<times> mat \<Rightarrow> error + (mat \<times> mat)" where
  "reduce_above n L C i (NF, G) =
     (if NF ! L ! C = 0 then Inl UndefinedBehaviour
      else Inr (reduce_with n L C i NF G (floor_quot (NF ! i ! C) (NF ! L ! C))))"

definition negate_entry :: "nat \<Rightarrow> nat \<Rightarrow> mat \<Rightarrow> mat" where
  "negate_entry L i M = upd2 M L i (M ! L ! i * (- 1))"

definition clear_entry :: "nat \<Rightarrow> nat \<Rightarrow> mat \<Rightarrow> mat" where
  "clear_entry C i NF = upd2 NF i C 0"

fun next_column :: "nat \<Rightarrow> error + (mat \<times> mat) \<Rightarrow> error + (mat \<times> mat \<times> nat)" where
  "next_column C (Inl e) = Inl e"
| "next_column C (Inr (NF, G)) = Inr (G, NF, Suc C)"

fun pivot_apply ::
  "nat \<Rightarrow> nat \<Rightarrow> nat \<Rightarrow> nat list \<Rightarrow> mat \<Rightarrow> mat \<Rightarrow> error + (GL_Long \<times> mat)
     \<Rightarrow> error + (mat \<times> mat \<times> nat)" where
  "pivot_apply n L C p NF G (Inl e) = Inl e"
| "pivot_apply n L C p NF G (Inr (g, GLZ)) =
     next_column C
       (foldE (reduce_above n L C) [0..<L]
          (fold (clear_entry C) [Suc L..<n] (upd2 NF L C (if g < 0 then g * (- 1) else g)),
           swap_lines n L (p ! 0)
             (apply_GLZ n (if g < 0 then fold (negate_entry 0) [0..<length p] GLZ else GLZ) p G)))"

fun pivot_found :: "nat \<Rightarrow> nat \<Rightarrow> mat \<Rightarrow> error + (mat \<times> nat \<times> nat list) \<Rightarrow> error + (mat \<times> mat \<times> nat)" where
  "pivot_found n L G (Inl e) = Inl e"
| "pivot_found n L G (Inr (NF, C, p)) =
     pivot_apply n L C p NF G
       (if length p = 1 then Inr (NF ! (p ! 0) ! C, [[1]])
        else GL_W_to_GLZ (map (\<lambda>i. NF ! i ! C) p) (length p))"

fun pivot_line :: "nat \<Rightarrow> nat \<Rightarrow> mat \<Rightarrow> nat \<Rightarrow> mat \<times> mat \<times> nat \<Rightarrow> error + (mat \<times> mat \<times> nat)" where
  "pivot_line n nv X L (G, NF, C) = pivot_found n L G (find_column n nv L X G NF C)"

fun copy_back :: "int \<Rightarrow> (nat \<times> nat) list \<Rightarrow> mat \<Rightarrow> mat \<Rightarrow> int \<times> mat" where
  "copy_back lim [] NF X = (1, X)"
| "copy_back lim ((i, j) # ps) NF X =
     (if (if NF ! i ! j < 0 then - (NF ! i ! j) else NF ! i ! j) > lim then (0, X)
      else copy_back lim ps NF (upd2 X i j (NF ! i ! j)))"

definition rest_columns :: "nat \<Rightarrow> nat \<Rightarrow> mat \<Rightarrow> mat \<Rightarrow> mat \<Rightarrow> nat \<Rightarrow> mat" where
  "rest_columns n nv X G NF C = fold (add_column n G X) [C..<nv] NF"

fun finish :: "int \<Rightarrow> mat \<Rightarrow> nat \<Rightarrow> nat \<Rightarrow> error + (mat \<times> mat \<times> nat) \<Rightarrow> error + (int \<times> mat \<times> mat)" where
  "finish lim X n nv (Inl e) = Inl e"
| "finish lim X n nv (Inr (G, NF, C)) =
     Inr (fst (copy_back lim (List.product [0..<n] [0..<nv]) (rest_columns n nv X G NF C) X),
          snd (copy_back lim (List.product [0..<n] [0..<nv]) (rest_columns n nv X G NF C) X),
          G)"

definition unit_line :: "nat \<Rightarrow> nat \<Rightarrow> int list" where
  "unit_line n i = map (\<lambda>j. if i = j then 1 else 0) [0..<n]"

definition GLZ_pivots :: "mat \<Rightarrow> nat \<Rightarrow> nat \<Rightarrow> error + (mat \<times> mat \<times> nat)" where
  "GLZ_pivots X n nv =
     foldE (pivot_line n nv X) [0..<n]
       (map (unit_line n) [0..<n], replicate n (replicate nv 0), 0)"

text \<open>\<open>GLZ_Make_Trian_NF\<close> returns its \<open>int\<close> with the arrays \<open>X\<close> and \<open>G\<close> as it leaves them.\<close>

definition GLZ_Make_Trian_NF :: "int \<Rightarrow> mat \<Rightarrow> nat \<Rightarrow> nat \<Rightarrow> error + (int \<times> mat \<times> mat)" where
  "GLZ_Make_Trian_NF lim X n nv = finish lim X n nv (GLZ_pivots X n nv)"



section \<open>Canonical form of the vertex pairing matrix\<close>

record PERM =
  perm_C :: "nat list"
  perm_L :: "nat list"
  perm_s :: int

definition store :: "'a list \<Rightarrow> nat \<Rightarrow> 'a \<Rightarrow> 'a list" where
  "store xs k v = (if k < length xs then xs[k := v] else xs @ [v])"

definition swap :: "nat \<Rightarrow> nat \<Rightarrow> nat list \<Rightarrow> nat list" where
  "swap i j xs = xs[i := xs ! j, j := xs ! i]"

definition swap_L :: "nat \<Rightarrow> nat \<Rightarrow> PERM \<Rightarrow> PERM" where
  "swap_L i j P = P\<lparr>perm_L := swap i j (perm_L P)\<rparr>"

definition max_step :: "Long list \<Rightarrow> nat \<Rightarrow> nat \<Rightarrow> nat list \<Rightarrow> nat list" where
  "max_step y c j C = (if y ! (C ! c) < y ! (C ! j) then swap c j C else C)"

definition max_block :: "mat \<Rightarrow> nat \<Rightarrow> nat \<Rightarrow> nat \<Rightarrow> PERM \<Rightarrow> PERM" where
  "max_block x L c s P =
     P\<lparr>perm_C := fold (max_step (x ! (perm_L P ! L)) c) [Suc c..<Suc s] (perm_C P)\<rparr>"

definition entry :: "mat \<Rightarrow> nat \<Rightarrow> nat \<Rightarrow> PERM \<Rightarrow> Long" where
  "entry x L c P = x ! (perm_L P ! L) ! (perm_C P ! c)"

text \<open>state of one pass of \<open>Aux_vNF_Line\<close> over a candidate:
  \<open>(nP, np, ccf, cf, r, ns)\<close>\<close>

type_synonym line_state = "PERM list \<times> nat \<times> bool \<times> bool \<times> Long list \<times> nat"

definition first_cmp ::
  "mat \<Rightarrow> nat \<Rightarrow> nat \<Rightarrow> PERM \<Rightarrow> nat \<Rightarrow> PERM list \<Rightarrow> nat \<Rightarrow> bool \<Rightarrow> bool \<Rightarrow> Long list \<Rightarrow> nat
     \<Rightarrow> line_state" where
  "first_cmp x l n CLn L nP np ccf cf r ns =
     (if ccf then
        (if entry x L 0 (nP ! np) - r ! 0 < 0 then (nP, np, ccf, cf, r, ns)
         else if entry x L 0 (nP ! np) - r ! 0 \<noteq> 0 then
           ((store (nP[0 := nP ! np]) 1 CLn)[0 := swap_L l L (nP ! np)], 1, ccf, False,
            r[0 := entry x L 0 (nP ! np)], Suc n)
         else (store (nP[np := swap_L l L (nP ! np)]) (Suc np) CLn, Suc np, ccf, cf, r, ns))
      else (store (nP[np := swap_L l L (nP ! np)]) (Suc np) CLn, Suc np, True, cf,
            r[0 := entry x L 0 (nP ! np)], ns))"

fun first_step :: "mat \<Rightarrow> nat list \<Rightarrow> nat \<Rightarrow> nat \<Rightarrow> PERM \<Rightarrow> nat \<Rightarrow> line_state \<Rightarrow> line_state" where
  "first_step x S l n CLn L (nP, np, ccf, cf, r, ns) =
     first_cmp x l n CLn L (nP[np := max_block x L 0 (S ! 0) (nP ! np)]) np ccf cf r ns"

definition block_end :: "nat list \<Rightarrow> nat \<Rightarrow> nat" where
  "block_end S c = (if S ! c < c then S ! (S ! c) else S ! c)"

definition rest_cmp ::
  "mat \<Rightarrow> nat \<Rightarrow> nat \<Rightarrow> nat \<Rightarrow> nat \<Rightarrow> PERM list \<Rightarrow> nat \<Rightarrow> bool \<Rightarrow> bool \<Rightarrow> Long list \<Rightarrow> nat
     \<Rightarrow> line_state" where
  "rest_cmp x l n c L nP np ccf cf r ns =
     (if ccf then
        (if entry x l c (nP ! L) - r ! c < 0 then
           ((if np - 1 > L then nP[L := nP ! (np - 1)] else nP), np - 1, ccf, cf, r, ns)
         else if entry x l c (nP ! L) - r ! c \<noteq> 0 then
           (nP, Suc L, ccf, False, r[c := entry x l c (nP ! L)], Suc n)
         else (nP, np, ccf, cf, r, ns))
      else (nP, np, True, cf, r[c := entry x l c (nP ! L)], ns))"

fun rest_step :: "mat \<Rightarrow> nat list \<Rightarrow> nat \<Rightarrow> nat \<Rightarrow> nat \<Rightarrow> nat \<Rightarrow> line_state \<Rightarrow> line_state" where
  "rest_step x S l n c L (nP, np, ccf, cf, r, ns) =
     rest_cmp x l n c L (nP[L := max_block x l c (block_end S c) (nP ! L)]) np ccf cf r ns"

fun rest_column :: "mat \<Rightarrow> nat list \<Rightarrow> nat \<Rightarrow> nat \<Rightarrow> nat \<Rightarrow> line_state \<Rightarrow> line_state" where
  "rest_column x S l n c (nP, np, ccf, cf, r, ns) =
     fold (rest_step x S l n c) (rev [0..<np]) (nP, np, cf, cf, r, ns)"

fun append_nP :: "PERM list \<Rightarrow> nat \<Rightarrow> PERM list \<times> nat \<Rightarrow> PERM list \<times> nat" where
  "append_nP nP L (CL, ns) = (store CL ns (nP ! L), Suc ns)"

text \<open>state of \<open>Aux_vNF_Line\<close> across candidates: \<open>(CL, ns, cf, r)\<close>\<close>

type_synonym vNF_state = "PERM list \<times> nat \<times> bool \<times> Long list"

definition write_nP :: "nat \<Rightarrow> nat \<Rightarrow> PERM list \<Rightarrow> nat \<Rightarrow> PERM list \<Rightarrow> nat \<Rightarrow> Long list
    \<Rightarrow> error + vNF_state" where
  "write_nP SYM_Nmax n CL ns nP np r =
     (if SYM_Nmax < ns + np then Inl Exit
      else Inr (fst (fold (append_nP nP) [0..<np] (CL, ns)),
                snd (fold (append_nP nP) [0..<np] (CL, ns)), True, r))"

fun line_done :: "nat \<Rightarrow> nat \<Rightarrow> PERM list \<Rightarrow> line_state \<Rightarrow> error + vNF_state" where
  "line_done SYM_Nmax n CL (nP, np, ccf, cf, r, ns) =
     write_nP SYM_Nmax n (if ns - 1 > n then CL[n := CL ! (ns - 1)] else CL) (ns - 1) nP np r"

fun line_phases :: "nat \<Rightarrow> nat \<Rightarrow> nat \<Rightarrow> mat \<Rightarrow> nat list \<Rightarrow> nat \<Rightarrow> vNF_state \<Rightarrow> line_state" where
  "line_phases l nf nv x S n (CL, ns, cf, r) =
     fold (rest_column x S l n) [1..<nv]
       (fold (first_step x S l n (CL ! n)) [l..<nf] ([CL ! n], 0, cf, cf, r, ns))"

fun line_cand :: "nat \<Rightarrow> nat \<Rightarrow> nat \<Rightarrow> nat \<Rightarrow> mat \<Rightarrow> nat list \<Rightarrow> nat \<Rightarrow> vNF_state \<Rightarrow> error + vNF_state" where
  "line_cand SYM_Nmax l nf nv x S n (CL, ns, cf, r) =
     line_done SYM_Nmax n CL (line_phases l nf nv x S n (CL, ns, cf, r))"

text \<open>The count \<open>*_ns+np\<close> that \<open>Aux_vNF_Line\<close> compares with \<open>SYM_Nmax\<close> (after \<open>--(*_ns)\<close>).\<close>

fun retained :: "line_state \<Rightarrow> nat" where
  "retained (nP, np, ccf, cf, r, ns) = ns - 1 + np"

definition refine_S :: "Long list \<Rightarrow> nat list \<Rightarrow> nat \<Rightarrow> nat list \<Rightarrow> nat list" where
  "refine_S y C c S =
     (if y ! (C ! c) = y ! (C ! (c - 1))
      then (S[c := S ! (c - 1)])[S ! (c - 1) := Suc ((S[c := S ! (c - 1)]) ! (S ! (c - 1)))]
      else S[c := c])"

function compute_S :: "nat \<Rightarrow> Long list \<Rightarrow> nat list \<Rightarrow> nat \<Rightarrow> nat list \<Rightarrow> nat list" where
  "compute_S nv y C c S =
     (if c < nv
      then compute_S nv y C (max (Suc c) (Suc (S ! c)))
             (fold (refine_S y C) [Suc c..<Suc (S ! c)] (S[c := c]))
      else S)"
  by pat_completeness auto
termination
  by (relation "measure (\<lambda>(nv, y, C, c, S). nv - c)") auto

declare compute_S.simps [simp del]

fun line_S :: "nat \<Rightarrow> nat \<Rightarrow> mat \<Rightarrow> nat list \<Rightarrow> error + vNF_state \<Rightarrow> error + (PERM list \<times> nat \<times> nat list)" where
  "line_S l nv x S (Inl e) = Inl e"
| "line_S l nv x S (Inr (CL, ns, cf, r)) =
     Inr (CL, ns, compute_S nv (x ! (perm_L (CL ! 0) ! l)) (perm_C (CL ! 0)) 0 S)"

fun Aux_vNF_Line :: "nat \<Rightarrow> nat \<Rightarrow> nat \<Rightarrow> mat \<Rightarrow> nat \<Rightarrow> PERM list \<times> nat \<times> nat list
    \<Rightarrow> error + (PERM list \<times> nat \<times> nat list)" where
  "Aux_vNF_Line SYM_Nmax nf nv x l (CL, ns, S) =
     line_S l nv x S
       (foldE (line_cand SYM_Nmax l nf nv x S) (rev [0..<ns])
          (CL, ns, False, replicate nv undefined))"


definition sort_from :: "Long list \<Rightarrow> nat \<Rightarrow> nat \<Rightarrow> nat list \<Rightarrow> nat list" where
  "sort_from b nv i C = fold (max_step b i) [Suc i..<nv] C"

definition argmax_step :: "Long list \<Rightarrow> nat list \<Rightarrow> nat \<Rightarrow> nat \<Rightarrow> nat" where
  "argmax_step y C j m = (if y ! (C ! m) < y ! (C ! j) then j else m)"

definition select_max :: "Long list \<Rightarrow> nat \<Rightarrow> nat \<Rightarrow> nat list \<Rightarrow> nat list" where
  "select_max y nv i C =
     (if fold (argmax_step y C) [Suc i..<nv] i > i
      then swap i (fold (argmax_step y C) [Suc i..<nv] i) C else C)"

text \<open>one position \<open>i\<close> of the candidate line: \<open>(C, d)\<close>; \<open>d < 0\<close> after the \<open>break\<close>\<close>

definition next_d :: "Long list \<Rightarrow> Long list \<Rightarrow> nat list \<Rightarrow> nat \<Rightarrow> nat list \<Rightarrow> Long \<Rightarrow> nat list \<times> Long" where
  "next_d y b qC i C d = (C, if d = 0 then y ! (C ! i) - b ! (qC ! i) else d)"

fun init_pos :: "Long list \<Rightarrow> Long list \<Rightarrow> nat list \<Rightarrow> nat \<Rightarrow> nat \<Rightarrow> nat list \<times> Long \<Rightarrow> nat list \<times> Long" where
  "init_pos y b qC nv i (C, d) =
     (if d < 0 then (C, d) else next_d y b qC i (select_max y nv i C) d)"

fun init_rest :: "Long list \<Rightarrow> Long list \<Rightarrow> nat list \<Rightarrow> nat \<Rightarrow> nat list \<times> Long \<Rightarrow> nat list \<times> Long" where
  "init_rest y b qC nv (C, d) =
     (if d < 0 then (C, d) else fold (init_pos y b qC nv) [1..<nv] (C, d))"

definition init_cand :: "Long list \<Rightarrow> Long list \<Rightarrow> nat list \<Rightarrow> nat \<Rightarrow> nat list \<Rightarrow> nat list \<times> Long" where
  "init_cand y b qC nv C =
     init_rest y b qC nv (select_max y nv 0 C, y ! (select_max y nv 0 C ! 0) - b ! (qC ! 0))"

text \<open>state of \<open>Aux_vNF_Init\<close> across lines \<open>nn\<close>: \<open>(CL, ns, b)\<close>\<close>

definition init_keep :: "PERM \<Rightarrow> nat \<Rightarrow> Long list \<Rightarrow> PERM list \<Rightarrow> nat \<Rightarrow> Long list \<Rightarrow> nat list \<Rightarrow> Long
    \<Rightarrow> PERM list \<times> nat \<times> Long list" where
  "init_keep P nn y CL ns b C d =
     (if d < 0 then (store CL ns (P\<lparr>perm_C := C\<rparr>), ns, b)
      else if d = 0 then (store CL ns (swap_L 0 nn (P\<lparr>perm_C := C\<rparr>)), Suc ns, b)
      else ((store CL ns (swap_L 0 nn (P\<lparr>perm_C := C\<rparr>)))[0 := swap_L 0 nn (P\<lparr>perm_C := C\<rparr>)], 1, y))"

fun init_line :: "nat \<Rightarrow> nat \<Rightarrow> mat \<Rightarrow> PERM \<Rightarrow> nat \<Rightarrow> PERM list \<times> nat \<times> Long list
    \<Rightarrow> error + PERM list \<times> nat \<times> Long list" where
  "init_line SYM_Nmax nv x P nn (CL, ns, b) =
     (if SYM_Nmax < ns then Inl UndefinedBehaviour
      else Inr (init_keep P nn (x ! nn) CL ns b
                  (fst (init_cand (x ! nn) b (perm_C (CL ! 0)) nv (perm_C P)))
                  (snd (init_cand (x ! nn) b (perm_C (CL ! 0)) nv (perm_C P)))))"

fun init_S :: "nat \<Rightarrow> mat \<Rightarrow> error + PERM list \<times> nat \<times> Long list \<Rightarrow> error + (PERM list \<times> nat \<times> nat list)" where
  "init_S nv x (Inl e) = Inl e"
| "init_S nv x (Inr (CL, ns, b)) =
     Inr (CL, ns,
          fold (refine_S (x ! (perm_L (CL ! 0) ! 0)) (perm_C (CL ! 0))) [1..<nv]
            ((replicate nv undefined)[0 := 0]))"

definition start_PERM :: "nat \<Rightarrow> nat \<Rightarrow> PERM" where
  "start_PERM nf nv = \<lparr>perm_C = [0..<nv], perm_L = [0..<nf], perm_s = undefined\<rparr>"

definition Aux_vNF_Init :: "nat \<Rightarrow> nat \<Rightarrow> nat \<Rightarrow> mat \<Rightarrow> PERM list \<Rightarrow> nat
    \<Rightarrow> error + (PERM list \<times> nat \<times> nat list)" where
  "Aux_vNF_Init SYM_Nmax nf nv x CL ns =
     init_S nv x
       (foldE (init_line SYM_Nmax nv x (start_PERM nf nv)) [1..<nf]
          (store CL 0
             ((start_PERM nf nv)
                \<lparr>perm_C := fold (sort_from (x ! 0) nv) [1..<nv]
                              (fold (max_step (x ! 0) 0) [1..<nv] [0..<nv])\<rparr>),
           ns, x ! 0))"

definition VPM_NF_of :: "nat \<Rightarrow> nat \<Rightarrow> mat \<Rightarrow> PERM \<Rightarrow> mat" where
  "VPM_NF_of nf nv x P = map (\<lambda>j. map (\<lambda>i. x ! (perm_L P ! j) ! (perm_C P ! i)) [0..<nv]) [0..<nf]"

fun VPM_NF_out :: "nat \<Rightarrow> nat \<Rightarrow> mat \<Rightarrow> error + (PERM list \<times> nat \<times> nat list) \<Rightarrow> error + (PERM list \<times> nat \<times> mat)" where
  "VPM_NF_out nf nv x (Inl e) = Inl e"
| "VPM_NF_out nf nv x (Inr (CL, ns, S)) = Inr (CL, ns, VPM_NF_of nf nv x (CL ! 0))"

definition Make_VPM_NF :: "nat \<Rightarrow> nat \<Rightarrow> nat \<Rightarrow> mat \<Rightarrow> error + (PERM list \<times> nat \<times> mat)" where
  "Make_VPM_NF SYM_Nmax nv nf x =
     VPM_NF_out nf nv x
       (bindE (Aux_vNF_Init SYM_Nmax nf nv x [] 1)
          (foldE (Aux_vNF_Line SYM_Nmax nf nv x) [1..<nf - 1]))"

section \<open>Polytope normal form\<close>

record PolyPointList =
  P_n :: nat
  P_np :: nat
  P_x :: "Long list list"

record VertexNumList =
  V_nv :: nat
  V_v :: "nat list"

record Equation =
  E_a :: "Long list"
  E_c :: Long

record EqList =
  F_ne :: nat
  F_e :: "Equation list"

record limits =
  NFX_Limit :: int
  X_Limit :: int
  VPM_Limit :: int
  SYM_Nmax :: nat

definition limits_small :: "nat \<Rightarrow> limits" where
  "limits_small m = \<lparr>NFX_Limit = 903, X_Limit = 9999, VPM_Limit = 9999, SYM_Nmax = m\<rparr>"

definition limits_large :: "nat \<Rightarrow> limits" where
  "limits_large m =
     \<lparr>NFX_Limit = 1631721, X_Limit = 3263441, VPM_Limit = 3263442, SYM_Nmax = m\<rparr>"

text \<open>Modelled from the spec: \<open>Eval_Eq_on_V\<close> (Vertex.c, not among the sources) evaluates a
  facet equation on a vertex: the constant plus the inner product of normal and vertex.\<close>

definition Eval_Eq_on_V :: "Equation \<Rightarrow> Long list \<Rightarrow> nat \<Rightarrow> Long" where
  "Eval_Eq_on_V E V n = fold (\<lambda>i p. p + V ! i * E_a E ! i) (rev [0..<n]) (E_c E)"

definition flag_X :: "int \<Rightarrow> mat \<Rightarrow> nat \<Rightarrow> nat \<Rightarrow> int \<Rightarrow> int" where
  "flag_X lim X i j err = (if \<bar>X ! j ! i\<bar> > lim then X ! j ! i else err)"

definition flag_vertex :: "limits \<Rightarrow> nat \<Rightarrow> nat \<Rightarrow> mat \<Rightarrow> mat \<Rightarrow> nat \<Rightarrow> int \<Rightarrow> int" where
  "flag_vertex lim d f X x i err =
     fold (flag_X (VPM_Limit lim) x i) [0..<f] (fold (flag_X (X_Limit lim) X i) [0..<d] err)"

definition TEST_rVM_VPM :: "limits \<Rightarrow> nat \<Rightarrow> nat \<Rightarrow> nat \<Rightarrow> mat \<Rightarrow> mat \<Rightarrow> error + unit" where
  "TEST_rVM_VPM lim d v f X x =
     (if fold (flag_vertex lim d f X x) [0..<v] 0 \<noteq> 0 then Inl Exit else Inr ())"

definition ref_step :: "EqList \<Rightarrow> nat \<Rightarrow> int \<Rightarrow> int" where
  "ref_step F j ref = (if E_c (F_e F ! j) \<noteq> 1 then 0 else ref)"

definition VPM_of :: "PolyPointList \<Rightarrow> VertexNumList \<Rightarrow> EqList \<Rightarrow> mat" where
  "VPM_of P V F =
     map (\<lambda>j. map (\<lambda>i. Eval_Eq_on_V (F_e F ! j) (P_x P ! (V_v V ! i)) (P_n P)) [0..<V_nv V])
       [0..<F_ne F]"

definition VM_of :: "PolyPointList \<Rightarrow> VertexNumList \<Rightarrow> mat" where
  "VM_of P V = map (\<lambda>j. map (\<lambda>i. P_x P ! (V_v V ! i) ! j) [0..<V_nv V]) [0..<P_n P]"

fun after_test :: "int \<Rightarrow> mat \<Rightarrow> mat \<Rightarrow> error + unit \<Rightarrow> error + (int \<times> mat \<times> mat)" where
  "after_test ref X x (Inl e) = Inl e"
| "after_test ref X x (Inr u) = Inr (ref, X, x)"

text \<open>\<open>Init_rVM_VPM\<close> returns the reflexivity flag with \<open>VM\<close> and \<open>VPM\<close>; \<open>*d\<close>, \<open>*v\<close>, \<open>*f\<close>
  receive \<open>_P->n\<close>, \<open>_V->nv\<close>, \<open>_F->ne\<close>.\<close>

definition Init_rVM_VPM :: "limits \<Rightarrow> PolyPointList \<Rightarrow> VertexNumList \<Rightarrow> EqList \<Rightarrow> error + (int \<times> mat \<times> mat)" where
  "Init_rVM_VPM lim P V F =
     after_test (fold (ref_step F) [0..<F_ne F] 1) (VM_of P V) (VPM_of P V F)
       (TEST_rVM_VPM lim (P_n P) (V_nv V) (F_ne F) (VM_of P V) (VPM_of P V F))"

subsection \<open>\<open>New_pNF_Order\<close>\<close>

definition col_stat :: "mat \<Rightarrow> nat \<Rightarrow> nat \<Rightarrow> Long \<times> Long \<Rightarrow> Long \<times> Long" where
  "col_stat VPM_NF i j ms =
     (if VPM_NF ! j ! i > fst ms then VPM_NF ! j ! i else fst ms, snd ms + VPM_NF ! j ! i)"

definition col_stats :: "nat \<Rightarrow> mat \<Rightarrow> nat \<Rightarrow> Long \<times> Long" where
  "col_stats f VPM_NF i = fold (col_stat VPM_NF i) [0..<f] (0, 0)"

definition min_step :: "Long list \<Rightarrow> Long list \<Rightarrow> nat \<Rightarrow> nat \<Rightarrow> nat" where
  "min_step maxP sumP j n =
     (if maxP ! j < maxP ! n then j
      else if maxP ! j = maxP ! n \<and> sumP ! j < sumP ! n then j else n)"

definition swap_at :: "nat \<Rightarrow> nat \<Rightarrow> 'a list \<Rightarrow> 'a list" where
  "swap_at i n xs = xs[i := xs ! n, n := xs ! i]"

definition order_swap :: "nat \<Rightarrow> nat \<Rightarrow> Long list \<times> Long list \<times> nat list \<Rightarrow> Long list \<times> Long list \<times> nat list" where
  "order_swap i n st =
     (if n \<noteq> i then (swap_at i n (fst st), swap_at i n (fst (snd st)), swap_at i n (snd (snd st)))
      else st)"

definition order_step :: "nat \<Rightarrow> nat \<Rightarrow> Long list \<times> Long list \<times> nat list \<Rightarrow> Long list \<times> Long list \<times> nat list" where
  "order_step v i st = order_swap i (fold (min_step (fst st) (fst (snd st))) [Suc i..<v] i) st"

definition pNF_pi :: "nat \<Rightarrow> nat \<Rightarrow> mat \<Rightarrow> nat list" where
  "pNF_pi v f VPM_NF =
     snd (snd (fold (order_step v) [0..<v - 1]
       (map (\<lambda>i. fst (col_stats f VPM_NF i)) [0..<v],
        map (\<lambda>i. snd (col_stats f VPM_NF i)) [0..<v], [0..<v])))"

definition reorder_C :: "nat \<Rightarrow> nat list \<Rightarrow> PERM \<Rightarrow> PERM" where
  "reorder_C v pi P = P\<lparr>perm_C := map (\<lambda>j. perm_C P ! (pi ! j)) [0..<v]\<rparr>"

definition reorder_CL :: "nat \<Rightarrow> nat list \<Rightarrow> nat \<Rightarrow> PERM list \<Rightarrow> PERM list" where
  "reorder_CL v pi i CL = CL[i := reorder_C v pi (CL ! i)]"

definition New_pNF_Order :: "nat \<Rightarrow> nat \<Rightarrow> PERM list \<Rightarrow> nat \<Rightarrow> mat \<Rightarrow> PERM list" where
  "New_pNF_Order v f CL ns VPM_NF = fold (reorder_CL v (pNF_pi v f VPM_NF)) [0..<ns] CL"

subsection \<open>\<open>Aux_Make_Triang\<close>\<close>

fun Aux_XltY_Poly_NF :: "mat \<Rightarrow> mat \<Rightarrow> (nat \<times> nat) list \<Rightarrow> bool" where
  "Aux_XltY_Poly_NF X Y [] = False"
| "Aux_XltY_Poly_NF X Y ((i, j) # ps) =
     (if X ! i ! j - Y ! i ! j \<noteq> 0 then X ! i ! j - Y ! i ! j < 0 else Aux_XltY_Poly_NF X Y ps)"

fun Aux_Make_Poly_NF_ret :: "error + (int \<times> mat \<times> mat) \<Rightarrow> error + (int \<times> mat)" where
  "Aux_Make_Poly_NF_ret (Inl e) = Inl e"
| "Aux_Make_Poly_NF_ret (Inr (r, X, G)) = Inr (r, X)"

definition Aux_Make_Poly_NF :: "limits \<Rightarrow> mat \<Rightarrow> nat \<Rightarrow> nat \<Rightarrow> error + (int \<times> mat)" where
  "Aux_Make_Poly_NF lim X n nv = Aux_Make_Poly_NF_ret (GLZ_Make_Trian_NF (NFX_Limit lim) X n nv)"

fun or_exit :: "error + (int \<times> mat) \<Rightarrow> error + mat" where
  "or_exit (Inl e) = Inl e"
| "or_exit (Inr (r, X)) = (if r = 0 then Inl Exit else Inr X)"

definition permuted :: "mat \<Rightarrow> nat \<Rightarrow> nat \<Rightarrow> nat list \<Rightarrow> mat" where
  "permuted V n nv C = map (\<lambda>i. map (\<lambda>j. V ! i ! (C ! j)) [0..<nv]) [0..<n]"

definition try_NF :: "limits \<Rightarrow> mat \<Rightarrow> nat \<Rightarrow> nat \<Rightarrow> nat list \<Rightarrow> error + mat" where
  "try_NF lim V n nv C = or_exit (Aux_Make_Poly_NF lim (permuted V n nv C) n nv)"

definition set_s :: "int \<Rightarrow> nat \<Rightarrow> PERM list \<Rightarrow> PERM list" where
  "set_s b k CL = CL[k := (CL ! k)\<lparr>perm_s := b\<rparr>]"

text \<open>state of the loop over candidates: \<open>(X, Y, x, g, ps, t, CL)\<close>\<close>

type_synonym triang_state = "mat \<times> mat \<times> bool \<times> nat \<times> nat \<times> int \<times> PERM list"

definition new_best :: "nat \<Rightarrow> mat \<Rightarrow> mat \<Rightarrow> bool \<Rightarrow> nat \<Rightarrow> nat \<Rightarrow> int \<Rightarrow> PERM list \<Rightarrow> triang_state" where
  "new_best s X Y x g ps t CL =
     (if t \<noteq> 0
      then (X, Y, x, s, 1, if t < 0 then - 1 else t,
            if t < 0 then set_s 1 s (fold (set_s 0) [g..<s] CL) else CL)
      else (X, Y, x, g, ps, t, CL))"

definition same_best :: "nat \<Rightarrow> mat \<Rightarrow> mat \<Rightarrow> bool \<Rightarrow> nat \<Rightarrow> nat \<Rightarrow> int \<Rightarrow> PERM list \<Rightarrow> triang_state" where
  "same_best s X Y x g ps t CL =
     (if t \<noteq> 0
      then (X, Y, x, g, Suc ps, if t < 0 then t - 1 else t, if t < 0 then set_s 1 s CL else CL)
      else (X, Y, x, g, ps, t, CL))"

fun cmp_X :: "nat \<Rightarrow> nat \<Rightarrow> nat \<Rightarrow> mat \<Rightarrow> nat \<Rightarrow> nat \<Rightarrow> int \<Rightarrow> PERM list \<Rightarrow> error + mat \<Rightarrow> error + triang_state" where
  "cmp_X n nv s Y g ps t CL (Inl e) = Inl e"
| "cmp_X n nv s Y g ps t CL (Inr X) =
     Inr (if Aux_XltY_Poly_NF X Y (List.product [0..<n] [0..<nv]) then new_best s X Y False g ps t CL
          else if t \<noteq> 0 \<and> \<not> Aux_XltY_Poly_NF Y X (List.product [0..<n] [0..<nv])
            then same_best s X Y True g ps t CL
          else (X, Y, True, g, ps, t, CL))"

fun cmp_Y :: "nat \<Rightarrow> nat \<Rightarrow> nat \<Rightarrow> mat \<Rightarrow> nat \<Rightarrow> nat \<Rightarrow> int \<Rightarrow> PERM list \<Rightarrow> error + mat \<Rightarrow> error + triang_state" where
  "cmp_Y n nv s X g ps t CL (Inl e) = Inl e"
| "cmp_Y n nv s X g ps t CL (Inr Y) =
     Inr (if Aux_XltY_Poly_NF Y X (List.product [0..<n] [0..<nv]) then new_best s X Y True g ps t CL
          else if t \<noteq> 0 \<and> \<not> Aux_XltY_Poly_NF X Y (List.product [0..<n] [0..<nv])
            then same_best s X Y False g ps t CL
          else (X, Y, False, g, ps, t, CL))"

fun triang_step :: "limits \<Rightarrow> mat \<Rightarrow> nat \<Rightarrow> nat \<Rightarrow> nat \<Rightarrow> triang_state \<Rightarrow> error + triang_state" where
  "triang_step lim V n nv s (X, Y, x, g, ps, t, CL) =
     (if x then cmp_X n nv s Y g ps t CL (try_NF lim V n nv (perm_C (CL ! s)))
      else cmp_Y n nv s X g ps t CL (try_NF lim V n nv (perm_C (CL ! s))))"

fun triang_start :: "limits \<Rightarrow> mat \<Rightarrow> nat \<Rightarrow> nat \<Rightarrow> nat \<Rightarrow> int \<Rightarrow> PERM list \<Rightarrow> error + mat \<Rightarrow> error + triang_state" where
  "triang_start lim V n nv ns t CL (Inl e) = Inl e"
| "triang_start lim V n nv ns t CL (Inr X) =
     (if t < 0 \<and> t + 1 \<noteq> 0 then Inl Exit
      else foldE (triang_step lim V n nv) [1..<ns]
             (X, undefined, False, 0, 1, t,
              fold (set_s 0) [1..<ns] (if t < 0 then set_s 1 0 CL else CL)))"

fun triang_out :: "error + triang_state \<Rightarrow> error + (mat \<times> PERM list \<times> int)" where
  "triang_out (Inl e) = Inl e"
| "triang_out (Inr (X, Y, x, g, ps, t, CL)) = Inr (if x then Y else X, CL, t)"

definition Aux_Make_Triang :: "limits \<Rightarrow> PERM list \<Rightarrow> nat \<Rightarrow> mat \<Rightarrow> nat \<Rightarrow> nat \<Rightarrow> int
    \<Rightarrow> error + (mat \<times> PERM list \<times> int)" where
  "Aux_Make_Triang lim CL ns V n nv t =
     triang_out (triang_start lim V n nv ns t CL (try_NF lim V n nv (perm_C (CL ! 0))))"

definition Aux_pNF_from_vNF :: "limits \<Rightarrow> PERM list \<Rightarrow> nat \<Rightarrow> nat \<Rightarrow> nat \<Rightarrow> mat \<Rightarrow> int
    \<Rightarrow> error + (mat \<times> PERM list \<times> int)" where
  "Aux_pNF_from_vNF lim CL ns v d VM t = Aux_Make_Triang lim CL ns VM d v t"

fun order_and_triang :: "limits \<Rightarrow> nat \<Rightarrow> nat \<Rightarrow> nat \<Rightarrow> mat \<Rightarrow> int \<Rightarrow> PERM list \<times> nat \<times> mat
    \<Rightarrow> error + (mat \<times> PERM list \<times> int)" where
  "order_and_triang lim d v f VM t (CL, ns, VPM_NF) =
     Aux_pNF_from_vNF lim (New_pNF_Order v f CL ns VPM_NF) ns v d VM t"

fun pNF_only :: "error + (mat \<times> PERM list \<times> int) \<Rightarrow> error + mat" where
  "pNF_only (Inl e) = Inl e"
| "pNF_only (Inr (pNF, CL, t)) = Inr pNF"

definition Eval_Poly_NF :: "limits \<Rightarrow> nat \<Rightarrow> nat \<Rightarrow> nat \<Rightarrow> mat \<Rightarrow> mat \<Rightarrow> int \<Rightarrow> error + mat" where
  "Eval_Poly_NF lim d v f VM VPM t =
     pNF_only (bindE (Make_VPM_NF (SYM_Nmax lim) v f VPM) (order_and_triang lim d v f VM t))"

fun with_ref :: "int \<Rightarrow> error + mat \<Rightarrow> error + (int \<times> mat)" where
  "with_ref ref (Inl e) = Inl e"
| "with_ref ref (Inr pNF) = Inr (ref, pNF)"

fun Make_Poly_NF_body :: "limits \<Rightarrow> nat \<Rightarrow> nat \<Rightarrow> nat \<Rightarrow> int \<times> mat \<times> mat \<Rightarrow> error + (int \<times> mat)" where
  "Make_Poly_NF_body lim d v f (ref, VM, VPM) = with_ref ref (Eval_Poly_NF lim d v f VM VPM 0)"

definition Make_Poly_NF :: "limits \<Rightarrow> PolyPointList \<Rightarrow> VertexNumList \<Rightarrow> EqList \<Rightarrow> error + (int \<times> mat)" where
  "Make_Poly_NF lim P V F =
     bindE (Init_rVM_VPM lim P V F) (Make_Poly_NF_body lim (P_n P) (V_nv V) (F_ne F))"


subsection \<open>\<open>Make_Poly_Sym_NF\<close>\<close>













subsection \<open>\<open>SL2Z_Make_Poly_NF\<close>\<close>

definition SL_Egcd :: "Long \<Rightarrow> Long \<Rightarrow> (Long \<times> Long \<times> Long) option" where
  "SL_Egcd A0 A1 =
     (case Egcd_loop A0 A1 1 0 of
        None \<Rightarrow> None
      | Some (g, X1) \<Rightarrow> Some (g, X1, (g - A0 * X1) sdiv A1))"

definition comb_entry :: "Long \<Rightarrow> Long \<Rightarrow> Long \<Rightarrow> Long \<Rightarrow> nat \<Rightarrow> nat \<Rightarrow> nat \<Rightarrow> mat \<Rightarrow> mat" where
  "comb_entry a b c d L i j S =
     upd2 (upd2 S i j (c * S ! i ! j - d * S ! L ! j)) L j (a * S ! L ! j + b * S ! i ! j)"

text \<open>state of the elimination in one column: \<open>(S, NF, N)\<close>\<close>

fun SL_combine :: "nat \<Rightarrow> nat \<Rightarrow> nat \<Rightarrow> nat \<Rightarrow> mat \<Rightarrow> mat \<Rightarrow> nat \<Rightarrow> (Long \<times> Long \<times> Long) option
    \<Rightarrow> error + (mat \<times> mat \<times> nat)" where
  "SL_combine n L C i S NF N None = Inl UndefinedBehaviour"
| "SL_combine n L C i S NF N (Some (g, a, b)) =
     Inr (fold (comb_entry a b (NF ! L ! C sdiv g) (NF ! i ! C sdiv g) L i) [0..<n] S,
          upd2 (upd2 NF L C g) i C 0, Suc N)"

fun SL_elim :: "nat \<Rightarrow> nat \<Rightarrow> nat \<Rightarrow> nat \<Rightarrow> mat \<times> mat \<times> nat \<Rightarrow> error + (mat \<times> mat \<times> nat)" where
  "SL_elim n L C i (S, NF, N) =
     (if NF ! i ! C = 0 then Inr (S, NF, N)
      else if NF ! L ! C \<noteq> 0 then SL_combine n L C i S NF N (SL_Egcd (NF ! L ! C) (NF ! i ! C))
      else Inr (fold (swap_entry L i) [0..<n] S,
                upd2 (upd2 NF L C (NF ! i ! C)) i C (NF ! L ! C), Suc N))"

fun SL_count :: "error + (mat \<times> mat) \<Rightarrow> nat \<Rightarrow> error + (mat \<times> mat \<times> nat)" where
  "SL_count (Inl e) N = Inl e"
| "SL_count (Inr (NF, S)) N = Inr (S, NF, N)"

fun SL_sign :: "nat \<Rightarrow> nat \<Rightarrow> nat \<Rightarrow> error + (mat \<times> mat \<times> nat) \<Rightarrow> error + (mat \<times> mat \<times> nat)" where
  "SL_sign n L C (Inl e) = Inl e"
| "SL_sign n L C (Inr (S, NF, N)) =
     (if N \<noteq> 0
      then SL_count
        (foldE (reduce_above n L C) [0..<L]
           (if NF ! L ! C < 0
            then (upd2 NF L C (NF ! L ! C * (- 1)), fold (negate_entry L) [0..<n] S)
            else (NF, S))) N
      else Inr (if NF ! L ! C < 0 then fold (negate_entry L) [0..<n] S else S,
                if NF ! L ! C < 0 then upd2 NF L C (NF ! L ! C * (- 1)) else NF, N))"

definition SL_column :: "nat \<Rightarrow> nat \<Rightarrow> mat \<Rightarrow> nat \<Rightarrow> mat \<Rightarrow> mat \<Rightarrow> error + (mat \<times> mat \<times> nat)" where
  "SL_column n L X C S NF =
     SL_sign n L C
       (foldE (SL_elim n L C) [Suc L..<n]
          (S, add_column n S X C NF, if add_column n S X C NF ! L ! C \<noteq> 0 then 1 else 0))"


fun column_found :: "error + (mat \<times> mat \<times> nat) \<Rightarrow> bool" where
  "column_found (Inl e) = True"
| "column_found (Inr (S, NF, N)) = (N \<noteq> 0)"

fun column_S :: "error + (mat \<times> mat \<times> nat) \<Rightarrow> mat" where
  "column_S (Inl e) = []"
| "column_S (Inr (S, NF, N)) = S"

fun column_NF :: "error + (mat \<times> mat \<times> nat) \<Rightarrow> mat" where
  "column_NF (Inl e) = []"
| "column_NF (Inr (S, NF, N)) = NF"

fun column_done :: "nat \<Rightarrow> error + (mat \<times> mat \<times> nat) \<Rightarrow> error + (mat \<times> mat \<times> nat)" where
  "column_done C (Inl e) = Inl e"
| "column_done C (Inr (S, NF, N)) = Inr (S, NF, Suc C)"

function SL_find :: "nat \<Rightarrow> nat \<Rightarrow> nat \<Rightarrow> mat \<Rightarrow> mat \<Rightarrow> mat \<Rightarrow> nat \<Rightarrow> error + (mat \<times> mat \<times> nat)" where
  "SL_find n nv L X S NF C =
     (if nv \<le> C then Inl UndefinedBehaviour
      else if column_found (SL_column n L X C S NF) then column_done C (SL_column n L X C S NF)
      else SL_find n nv L X (column_S (SL_column n L X C S NF))
             (column_NF (SL_column n L X C S NF)) (Suc C))"
  by pat_completeness auto
termination
  by (relation "measure (\<lambda>(n, nv, L, X, S, NF, C). nv - C)") auto

declare SL_find.simps [simp del]

fun SL_line :: "nat \<Rightarrow> nat \<Rightarrow> mat \<Rightarrow> nat \<Rightarrow> mat \<times> mat \<times> nat \<Rightarrow> error + (mat \<times> mat \<times> nat)" where
  "SL_line n nv X L (S, NF, C) = SL_find n nv L X S NF C"

fun SL_last :: "error + (mat \<times> mat) \<Rightarrow> error + (mat \<times> mat \<times> nat)" where
  "SL_last (Inl e) = Inl e"
| "SL_last (Inr (NF, S)) = Inr (S, NF, 0)"

definition SL_tail_column :: "nat \<Rightarrow> nat \<Rightarrow> nat \<Rightarrow> mat \<Rightarrow> mat \<Rightarrow> error + (mat \<times> mat \<times> nat)" where
  "SL_tail_column n L C S NF =
     (if L \<noteq> 0 \<and> NF ! L ! C \<noteq> 0
      then SL_last
        (foldE (reduce_above n L C) [0..<L]
           (if NF ! L ! C < 0
            then (upd2 NF (n - 1) C (NF ! (n - 1) ! C * (- 1)), fold (negate_entry L) [0..<n] S)
            else (NF, S)))
      else Inr (S, NF, L))"

fun SL_tail :: "nat \<Rightarrow> mat \<Rightarrow> nat \<Rightarrow> mat \<times> mat \<times> nat \<Rightarrow> error + (mat \<times> mat \<times> nat)" where
  "SL_tail n X C (S, NF, L) = SL_tail_column n L C S (add_column n S X C NF)"

fun SL_copy_back :: "int \<Rightarrow> (nat \<times> nat) list \<Rightarrow> mat \<Rightarrow> mat \<Rightarrow> int \<times> mat" where
  "SL_copy_back lim [] NF X = (1, X)"
| "SL_copy_back lim ((i, j) # ps) NF X =
     (if \<bar>NF ! i ! j\<bar> > lim then (0, upd2 X i j (NF ! i ! j))
      else SL_copy_back lim ps NF (upd2 X i j (NF ! i ! j)))"

fun SL_finish :: "int \<Rightarrow> mat \<Rightarrow> nat \<Rightarrow> nat \<Rightarrow> error + (mat \<times> mat \<times> nat) \<Rightarrow> error + (int \<times> mat \<times> mat)" where
  "SL_finish lim X n nv (Inl e) = Inl e"
| "SL_finish lim X n nv (Inr (S, NF, L)) =
     Inr (fst (SL_copy_back lim (List.product [0..<n] [0..<nv]) NF X),
          snd (SL_copy_back lim (List.product [0..<n] [0..<nv]) NF X), S)"

fun SL_rest :: "nat \<Rightarrow> nat \<Rightarrow> mat \<Rightarrow> mat \<times> mat \<times> nat \<Rightarrow> error + (mat \<times> mat \<times> nat)" where
  "SL_rest n nv X (S, NF, C) = foldE (SL_tail n X) [C..<nv] (S, NF, n - 1)"

definition SL_lines :: "mat \<Rightarrow> nat \<Rightarrow> nat \<Rightarrow> error + (mat \<times> mat \<times> nat)" where
  "SL_lines X n nv =
     bindE (foldE (SL_line n nv X) [0..<n - 1]
              (map (unit_line n) [0..<n], replicate n (replicate nv 0), 0))
       (SL_rest n nv X)"

definition SL2Z_Make_Poly_NF :: "int \<Rightarrow> mat \<Rightarrow> nat \<Rightarrow> nat \<Rightarrow> error + (int \<times> mat \<times> mat)" where
  "SL2Z_Make_Poly_NF lim X n nv = SL_finish lim X n nv (SL_lines X n nv)"

text \<open>The local array \<open>NF\<close> of \<open>SL2Z_Make_Poly_NF\<close> when the copy to \<open>X\<close> begins.\<close>

fun NF_of_lines :: "error + (mat \<times> mat \<times> nat) \<Rightarrow> error + mat" where
  "NF_of_lines (Inl e) = Inl e"
| "NF_of_lines (Inr (S, NF, L)) = Inr NF"

definition SL_NF :: "mat \<Rightarrow> nat \<Rightarrow> nat \<Rightarrow> error + mat" where
  "SL_NF X n nv = NF_of_lines (SL_lines X n nv)"

subsection \<open>The caller's objects\<close>







section \<open>The square diamond\<close>

text \<open>
  The polygon with vertices \<open>(1,0), (0,1), (-1,0), (0,-1)\<close> and its four facets
  \<open>\<plusminus>x \<plusminus>y + 1 \<ge> 0\<close>, with the limits of the source for \<open>POLY_Dmax < 5\<close>.
\<close>

definition diamond_P :: PolyPointList where
  "diamond_P = \<lparr>P_n = 2, P_np = 4, P_x = [[1, 0], [0, 1], [- 1, 0], [0, - 1]]\<rparr>"

definition diamond_V :: VertexNumList where
  "diamond_V = \<lparr>V_nv = 4, V_v = [0, 1, 2, 3]\<rparr>"

definition diamond_F :: EqList where
  "diamond_F = \<lparr>F_ne = 4, F_e =
     [\<lparr>E_a = [1, 1], E_c = 1\<rparr>, \<lparr>E_a = [- 1, 1], E_c = 1\<rparr>,
      \<lparr>E_a = [- 1, - 1], E_c = 1\<rparr>, \<lparr>E_a = [1, - 1], E_c = 1\<rparr>]\<rparr>"

lemma Make_Poly_NF_diamond:
  "Make_Poly_NF (limits_small 88) diamond_P diamond_V diamond_F =
     Inr (1, [[1, 0, 0, - 1], [0, 1, - 1, 0]])"
  by code_simp

section \<open>Truncating division\<close>


lemma sdiv_neg_eq: "a < 0 \<Longrightarrow> 0 < b \<Longrightarrow> (a::int) sdiv b = - ((- a) div b)"
  by (simp add: signed_divide_int_def sgn_if)


section \<open>Matrices as lists of rows\<close>

definition wf_mat :: "nat \<Rightarrow> nat \<Rightarrow> 'a list list \<Rightarrow> bool" where
  "wf_mat n m M \<longleftrightarrow> length M = n \<and> (\<forall>i<n. length (M ! i) = m)"

lemma wf_mat_upd2 [simp]: "wf_mat n m M \<Longrightarrow> wf_mat n m (upd2 M i j v)"
proof -
  assume w: "wf_mat n m M"
  have "length (M[i := (M ! i)[j := v]] ! k) = m" if "k < n" for k
    using that w by (cases "k = i") (simp_all add: wf_mat_def)
  then show ?thesis using w by (simp add: wf_mat_def upd2_def)
qed


lemma upd2_nth_row: "i' \<noteq> i \<Longrightarrow> upd2 M i j v ! i' = M ! i'"
  by (simp add: upd2_def)

lemma wf_mat_replicate [simp]: "wf_mat n m (replicate n (replicate m v))"
  by (simp add: wf_mat_def)

lemma fold_wf_mat:
  assumes "\<And>k M. wf_mat n m M \<Longrightarrow> wf_mat n m (f k M)" "wf_mat n m M"
  shows "wf_mat n m (fold f ks M)"
  using assms(2) by (induction ks arbitrary: M) (auto intro: assms(1))

section \<open>Loops that can fail\<close>

lemma foldE_append:
  "foldE f (xs @ ys) s = (case foldE f xs s of Inl e \<Rightarrow> Inl e | Inr s' \<Rightarrow> foldE f ys s')"
  by (induction xs arbitrary: s) (auto split: sum.splits)

lemma foldE_fails_at:
  assumes "foldE f xs s = Inr s'" "f k s' = Inl e"
  shows "foldE f (xs @ k # ys) s = Inl e"
  using assms by (simp add: foldE_append)

lemma bindE_Inr_iff: "bindE a f = Inr y \<longleftrightarrow> (\<exists>x. a = Inr x \<and> f x = Inr y)"
  by (cases a) auto

lemma bindE_Inl_iff: "bindE a f = Inl e \<longleftrightarrow> a = Inl e \<or> (\<exists>x. a = Inr x \<and> f x = Inl e)"
  by (cases a) auto

section \<open>The order on coordinate matrices\<close>










section \<open>Rounded quotient\<close>











section \<open>The reflexivity flag\<close>

lemma fold_ref_step:
  "fold (ref_step F) [0..<k] r = (if \<forall>j<k. E_c (F_e F ! j) = 1 then r else 0)"
proof (induction k)
  case 0
  then show ?case by simp
next
  case (Suc k)
  then show ?case by (auto simp: ref_step_def less_Suc_eq)
qed

lemma Init_rVM_VPM_ref:
  assumes "Init_rVM_VPM lim P V F = Inr (r, VM, VPM)"
  shows "r = (if \<forall>j<F_ne F. E_c (F_e F ! j) = 1 then 1 else 0)"
proof (cases "TEST_rVM_VPM lim (P_n P) (V_nv V) (F_ne F) (VM_of P V) (VPM_of P V F)")
  case (Inl e)
  then show ?thesis using assms by (simp add: Init_rVM_VPM_def)
next
  case (Inr u)
  then show ?thesis using assms by (simp add: Init_rVM_VPM_def fold_ref_step)
qed

text \<open>
  Claim C10: whenever \<open>Make_Poly_NF\<close> returns, its return value is \<open>1\<close> if every facet
  equation of the \<open>EqList\<close> has constant \<open>c = 1\<close> and \<open>0\<close> otherwise; the value is fixed by
  the \<open>EqList\<close> alone, whatever normal form is computed.
\<close>

theorem Make_Poly_NF_returns_reflexive:
  assumes "Make_Poly_NF lim P V F = Inr (r, pNF)"
  shows "(r = 1 \<longleftrightarrow> (\<forall>j<F_ne F. E_c (F_e F ! j) = 1)) \<and>
         r = (if \<forall>j<F_ne F. E_c (F_e F ! j) = 1 then 1 else 0)"
proof (cases "Init_rVM_VPM lim P V F")
  case (Inl e)
  then show ?thesis using assms by (simp add: Make_Poly_NF_def)
next
  case (Inr a)
  obtain r' VM VPM where a: "a = (r', VM, VPM)" by (cases a)
  have r': "r' = (if \<forall>j<F_ne F. E_c (F_e F ! j) = 1 then 1 else 0)"
    using Init_rVM_VPM_ref Inr a by blast
  have "r = r'"
    using assms Inr a
    by (cases "Eval_Poly_NF lim (P_n P) (V_nv V) (F_ne F) VM VPM 0") (simp_all add: Make_Poly_NF_def)
  then show ?thesis using r' by simp
qed

theorem Make_Poly_NF_returns_reflexive_witness:
  "Make_Poly_NF (limits_small 88) diamond_P diamond_V diamond_F =
     Inr (1, [[1, 0, 0, - 1], [0, 1, - 1, 0]]) \<and>
   E_c (F_e diamond_F ! 0) = 1 \<and> E_c (F_e diamond_F ! 1) = 1 \<and>
   E_c (F_e diamond_F ! 2) = 1 \<and> E_c (F_e diamond_F ! 3) = 1 \<and>
   (1::int) = (if \<forall>j<F_ne diamond_F. E_c (F_e diamond_F ! j) = 1 then 1 else 0)"
  using Make_Poly_NF_returns_reflexive [OF Make_Poly_NF_diamond] Make_Poly_NF_diamond
  by (simp add: diamond_F_def)

section \<open>The inputs are read only\<close>




section \<open>The limit on normal-form entries\<close>










lemma SL2Z_example:
  "SL2Z_Make_Poly_NF 903 [[2, 4, 3, 1], [3, 1, 5, 7], [4, 5, 6, 6]] 3 4 =
     Inr (1, [[1, 0, 2, 2], [0, 1, 2, - 6], [0, 0, 3, - 7]],
          [[1, 1, - 1], [8, 4, - 7], [11, 6, - 10]])"
  by code_simp


lemma SL_NF_example:
  "SL_NF [[2, 4, 3, 1], [3, 1, 5, 7], [4, 5, 6, 6]] 3 4 =
     Inr [[1, 0, 2, 2], [0, 1, 2, - 6], [0, 0, 3, - 7]]"
  by code_simp



section \<open>The limit on the number of candidates\<close>

lemma line_cand_exit_iff:
  "line_cand m l nf nv x S n st = Inl e \<longleftrightarrow> e = Exit \<and> m < retained (line_phases l nf nv x S n st)"
proof -
  obtain CL ns cf r where st: "st = (CL, ns, cf, r)" by (cases st)
  obtain nP np ccf cf' r' ns' where
    ph: "line_phases l nf nv x S n (CL, ns, cf, r) = (nP, np, ccf, cf', r', ns')"
    by (cases "line_phases l nf nv x S n (CL, ns, cf, r)")
  show ?thesis
    unfolding st line_cand.simps ph by (auto simp: write_nP_def)
qed

lemma upt_split3: "a \<le> k \<Longrightarrow> k < b \<Longrightarrow> [a..<b] = [a..<k] @ k # [Suc k..<b]"
  by (metis le_add_diff_inverse less_imp_le_nat upt_add_eq_append upt_conv_Cons)

text \<open>
  Claim C6, amended: when, at candidate \<open>n\<close> of line \<open>l\<close>, the count \<open>*_ns+np\<close> of retained
  candidates exceeds \<open>SYM_Nmax\<close>, \<open>Aux_vNF_Line\<close> calls \<open>exit(0)\<close>: the process ends there,
  so that \<open>Aux_vNF_Line\<close>, \<open>Make_VPM_NF\<close>, \<open>Eval_Poly_NF\<close> and \<open>Make_Poly_NF\<close> do not
  return to their callers, and nothing is retried. It is the only way a pass over a candidate
  fails.
\<close>

theorem SYM_Nmax_exceeded_exits:
  assumes init: "Aux_vNF_Init m nf nv x [] 1 = Inr st0"
    and l: "1 \<le> l" "l < nf - 1"
    and lines: "foldE (Aux_vNF_Line m nf nv x) [1..<l] st0 = Inr (CL, ns, S)"
    and n: "n < ns"
    and cands: "foldE (line_cand m l nf nv x S) (rev [Suc n..<ns])
                  (CL, ns, False, replicate nv undefined) = Inr st"
    and over: "m < retained (line_phases l nf nv x S n st)"
  shows "line_cand m l nf nv x S n st = Inl Exit \<and>
         Aux_vNF_Line m nf nv x l (CL, ns, S) = Inl Exit \<and>
         Make_VPM_NF m nv nf x = Inl Exit \<and>
         (SYM_Nmax lim = m \<longrightarrow> Eval_Poly_NF lim d nv nf VM x t = Inl Exit) \<and>
         (SYM_Nmax lim = m \<and> V_nv V = nv \<and> F_ne F = nf \<and> Init_rVM_VPM lim P V F = Inr (c, VM, x)
            \<longrightarrow> Make_Poly_NF lim P V F = Inl Exit) \<and>
         (\<forall>e n' st'. line_cand m l nf nv x S n' st' = Inl e \<longrightarrow>
            e = Exit \<and> m < retained (line_phases l nf nv x S n' st'))"
proof -
  have c: "line_cand m l nf nv x S n st = Inl Exit"
    using over by (simp add: line_cand_exit_iff)
  have r: "rev [0..<ns] = rev [Suc n..<ns] @ n # rev [0..<n]"
    using upt_split3[of 0 n ns] n by simp
  have "foldE (line_cand m l nf nv x S) (rev [0..<ns]) (CL, ns, False, replicate nv undefined) = Inl Exit"
    unfolding r using foldE_fails_at[OF cands c] .
  then have a: "Aux_vNF_Line m nf nv x l (CL, ns, S) = Inl Exit" by simp
  have f: "foldE (Aux_vNF_Line m nf nv x) [1..<nf - 1] st0 = Inl Exit"
    using foldE_fails_at[OF lines a] upt_split3[OF l] by simp
  have v: "Make_VPM_NF m nv nf x = Inl Exit"
    unfolding Make_VPM_NF_def init bindE.simps f by simp
  have e: "Eval_Poly_NF lim d nv nf VM x t = Inl Exit" if "SYM_Nmax lim = m" for d VM t
    using v that by (simp add: Eval_Poly_NF_def)
  have p: "Make_Poly_NF lim P V F = Inl Exit"
    if "SYM_Nmax lim = m \<and> V_nv V = nv \<and> F_ne F = nf \<and> Init_rVM_VPM lim P V F = Inr (c, VM, x)"
    using e[of "P_n P" VM 0] that by (simp add: Make_Poly_NF_def)
  show ?thesis
    using c a v e p line_cand_exit_iff by blast
qed

lemma diamond_Init:
  "Init_rVM_VPM (limits_small 3) diamond_P diamond_V diamond_F =
     Inr (1, [[1, 0, - 1, 0], [0, 1, 0, - 1]],
          [[2, 2, 0, 0], [0, 2, 2, 0], [0, 0, 2, 2], [2, 0, 0, 2]])"
  by code_simp

lemma diamond_vNF_Init:
  "Aux_vNF_Init 3 4 4 [[2, 2, 0, 0], [0, 2, 2, 0], [0, 0, 2, 2], [2, 0, 0, 2]] [] 1 =
     Inr ([\<lparr>perm_C = [0, 1, 2, 3], perm_L = [0, 1, 2, 3], perm_s = undefined\<rparr>,
           \<lparr>perm_C = [1, 2, 0, 3], perm_L = [1, 0, 2, 3], perm_s = undefined\<rparr>,
           \<lparr>perm_C = [2, 3, 0, 1], perm_L = [2, 1, 0, 3], perm_s = undefined\<rparr>,
           \<lparr>perm_C = [0, 3, 2, 1], perm_L = [3, 1, 2, 0], perm_s = undefined\<rparr>],
          4, [1, 0, 3, 2])"
  by code_simp

lemma diamond_retained:
  "retained (line_phases 1 4 4 [[2, 2, 0, 0], [0, 2, 2, 0], [0, 0, 2, 2], [2, 0, 0, 2]] [1, 0, 3, 2] 3
     ([\<lparr>perm_C = [0, 1, 2, 3], perm_L = [0, 1, 2, 3], perm_s = undefined\<rparr>,
       \<lparr>perm_C = [1, 2, 0, 3], perm_L = [1, 0, 2, 3], perm_s = undefined\<rparr>,
       \<lparr>perm_C = [2, 3, 0, 1], perm_L = [2, 1, 0, 3], perm_s = undefined\<rparr>,
       \<lparr>perm_C = [0, 3, 2, 1], perm_L = [3, 1, 2, 0], perm_s = undefined\<rparr>],
      4, False, replicate 4 undefined)) = 5"
  by code_simp

theorem SYM_Nmax_exceeded_exits_witness:
  "Aux_vNF_Init 3 4 4 [[2, 2, 0, 0], [0, 2, 2, 0], [0, 0, 2, 2], [2, 0, 0, 2]] [] 1 =
     Inr ([\<lparr>perm_C = [0, 1, 2, 3], perm_L = [0, 1, 2, 3], perm_s = undefined\<rparr>,
           \<lparr>perm_C = [1, 2, 0, 3], perm_L = [1, 0, 2, 3], perm_s = undefined\<rparr>,
           \<lparr>perm_C = [2, 3, 0, 1], perm_L = [2, 1, 0, 3], perm_s = undefined\<rparr>,
           \<lparr>perm_C = [0, 3, 2, 1], perm_L = [3, 1, 2, 0], perm_s = undefined\<rparr>],
          4, [1, 0, 3, 2]) \<and>
   (3::nat) < 5 \<and>
   Make_VPM_NF 3 4 4 [[2, 2, 0, 0], [0, 2, 2, 0], [0, 0, 2, 2], [2, 0, 0, 2]] = Inl Exit \<and>
   Make_Poly_NF (limits_small 3) diamond_P diamond_V diamond_F = Inl Exit"
  using SYM_Nmax_exceeded_exits [OF diamond_vNF_Init, where l = 1 and CL =
      "[\<lparr>perm_C = [0, 1, 2, 3], perm_L = [0, 1, 2, 3], perm_s = undefined\<rparr>,
        \<lparr>perm_C = [1, 2, 0, 3], perm_L = [1, 0, 2, 3], perm_s = undefined\<rparr>,
        \<lparr>perm_C = [2, 3, 0, 1], perm_L = [2, 1, 0, 3], perm_s = undefined\<rparr>,
        \<lparr>perm_C = [0, 3, 2, 1], perm_L = [3, 1, 2, 0], perm_s = undefined\<rparr>]"
      and ns = 4 and S = "[1, 0, 3, 2]" and n = 3 and st =
      "([\<lparr>perm_C = [0, 1, 2, 3], perm_L = [0, 1, 2, 3], perm_s = undefined\<rparr>,
        \<lparr>perm_C = [1, 2, 0, 3], perm_L = [1, 0, 2, 3], perm_s = undefined\<rparr>,
        \<lparr>perm_C = [2, 3, 0, 1], perm_L = [2, 1, 0, 3], perm_s = undefined\<rparr>,
        \<lparr>perm_C = [0, 3, 2, 1], perm_L = [3, 1, 2, 0], perm_s = undefined\<rparr>],
       4, False, replicate 4 undefined)"
      and lim = "limits_small 3" and V = diamond_V and F = diamond_F and P = diamond_P and c = 1
      and VM = "[[1, 0, - 1, 0], [0, 1, 0, - 1]]"]
    diamond_vNF_Init diamond_retained diamond_Init
  by (simp add: limits_small_def diamond_V_def diamond_F_def)

text \<open>
  Claim C6 as stated fails: with room for three candidates the square diamond, whose vertex
  pairing matrix has eight symmetries, makes \<open>Make_Poly_NF\<close> end in \<open>exit(0)\<close>; the caller
  receives no result and no error to recover from. With \<open>SYM_Nmax = 88\<close> the same call returns.
\<close>

theorem SYM_Nmax_counterexample:
  "Make_Poly_NF (limits_small 3) diamond_P diamond_V diamond_F = Inl Exit \<and>
   Make_VPM_NF 3 4 4 [[2, 2, 0, 0], [0, 2, 2, 0], [0, 0, 2, 2], [2, 0, 0, 2]] = Inl Exit \<and>
   Make_Poly_NF (limits_small 88) diamond_P diamond_V diamond_F =
     Inr (1, [[1, 0, 0, - 1], [0, 1, - 1, 0]])"
  by code_simp

section \<open>The minimum over the candidates\<close>

lemma length_set_s [simp]: "length (set_s b k CL) = length CL"
  by (simp add: set_s_def)

lemma perm_C_set_s [simp]: "perm_C (set_s b k CL ! j) = perm_C (CL ! j)"
  by (cases "k < length CL") (auto simp: set_s_def nth_list_update list_update_beyond)















section \<open>The extended Euclidean algorithm\<close>

lemma sdiv_mult_self [simp]:
  assumes "b \<noteq> 0"
  shows "(a * b) sdiv b = (a::int)"
proof -
  have 1: "\<bar>a * b\<bar> div \<bar>b\<bar> = \<bar>a\<bar>" using assms by (simp add: abs_mult)
  have 2: "sgn b * sgn b = 1" using assms by (simp add: sgn_if)
  have "(a * b) sdiv b = sgn a * (sgn b * sgn b) * \<bar>a\<bar>"
    unfolding signed_divide_int_def 1 by (simp add: sgn_mult)
  also have "\<dots> = a" unfolding 2 by (simp add: mult_sgn_abs)
  finally show ?thesis .
qed


lemma smod_eq: "(a::int) smod b = a - (a sdiv b) * b"
  by (simp add: minus_sdiv_mult_eq_smod)

lemma Egcd_loop_correct:
  assumes "Egcd_loop A0 A1 X0 X1 = Some (g, x)"
    and "A0 = X0 * V0 + Y0 * V1" "A1 = X1 * V0 + Y1 * V1"
  shows "(\<exists>y. g = x * V0 + y * V1) \<and> g \<noteq> 0 \<and> g dvd A0 \<and> g dvd A1"
  using assms
proof (induction A0 A1 X0 X1 arbitrary: Y0 Y1 rule: Egcd_loop.induct)
  case (1 A0 A1 X0 X1)
  have nz: "A1 \<noteq> 0" using "1.prems"(1) by (subst (asm) Egcd_loop.simps) (auto split: if_splits)
  show ?case
  proof (cases "A0 smod A1 \<noteq> 0")
    case True
    let ?q = "A0 sdiv A1"
    have rec: "Egcd_loop A1 (A0 smod A1) X1 (X0 - X1 * ?q) = Some (g, x)"
      using "1.prems"(1) nz True by (subst (asm) Egcd_loop.simps) simp
    have r: "A0 smod A1 = (X0 - X1 * ?q) * V0 + (Y0 - Y1 * ?q) * V1"
      unfolding smod_eq using "1.prems"(2,3) by (simp add: algebra_simps)
    have IH: "(\<exists>y. g = x * V0 + y * V1) \<and> g \<noteq> 0 \<and> g dvd A1 \<and> g dvd A0 smod A1"
      using "1.IH"[OF nz True rec "1.prems"(3) r] .
    have "A0 = ?q * A1 + A0 smod A1" by (simp add: sdiv_mult_smod_eq)
    then have "g dvd A0" using IH by (metis dvd_add dvd_mult)
    then show ?thesis using IH by blast
  next
    case False
    then have res: "g = A1" "x = X1"
      using "1.prems"(1) nz by (subst (asm) Egcd_loop.simps, simp)+
    have "A0 = (A0 sdiv A1) * A1" using False smod_eq[of A0 A1] by simp
    then have "A1 dvd A0" by (metis dvd_triv_right)
    then show ?thesis using res nz "1.prems"(3) by auto
  qed
qed

lemma GL_Egcd_correct:
  assumes "GL_Egcd A0 A1 = Some (g, x, y)"
  shows "A1 \<noteq> 0 \<and> g \<noteq> 0 \<and> A0 * x + A1 * y = g \<and> g dvd A0 \<and> g dvd A1"
proof -
  obtain x' where l: "Egcd_loop A0 A1 1 0 = Some (g, x')" and x: "x = x'"
    and y: "y = (g - A0 * x') sdiv A1"
    using assms by (auto simp: GL_Egcd_def split: option.splits)
  have nz: "A1 \<noteq> 0" using l by (subst (asm) Egcd_loop.simps) (auto split: if_splits)
  have c: "(\<exists>y. g = x' * A0 + y * A1) \<and> g \<noteq> 0 \<and> g dvd A0 \<and> g dvd A1"
    using Egcd_loop_correct[OF l, of A0 0 A1 1] by simp
  then obtain y' where y': "g = x' * A0 + y' * A1" by blast
  then have "g - A0 * x' = y' * A1" by (simp add: algebra_simps)
  then have "y = y'" using y nz by simp
  then show ?thesis using c y' x nz by (simp add: algebra_simps)
qed

lemma SL_Egcd_correct:
  assumes "SL_Egcd A0 A1 = Some (g, x, y)"
  shows "A1 \<noteq> 0 \<and> g \<noteq> 0 \<and> A0 * x + A1 * y = g \<and> g dvd A0 \<and> g dvd A1"
  using GL_Egcd_correct[of A0 A1 g x y] assms by (simp add: GL_Egcd_def SL_Egcd_def)

lemma GL_Egcd_Some: "A1 \<noteq> 0 \<Longrightarrow> \<exists>r. GL_Egcd A0 A1 = Some r"
proof -
  have "A1 \<noteq> 0 \<Longrightarrow> \<exists>r. Egcd_loop A0 A1 X0 X1 = Some r" for X0 X1
  proof (induction A0 A1 X0 X1 rule: Egcd_loop.induct)
    case (1 A0 A1 X0 X1)
    then show ?case by (subst Egcd_loop.simps) auto
  qed
  then show "A1 \<noteq> 0 \<Longrightarrow> \<exists>r. GL_Egcd A0 A1 = Some r"
    by (fastforce simp: GL_Egcd_def split: option.splits)
qed

section \<open>Loops over the entries of a matrix\<close>

lemma fold_upt_Suc: "a \<le> b \<Longrightarrow> fold f [a..<Suc b] s = f b (fold f [a..<b] s)"
  by simp












section \<open>The combination matrix of \<open>GL_W_to_GLZ\<close>\<close>













section \<open>The pivot loop of \<open>GLZ_Make_Trian_NF\<close>\<close>

































section \<open>The echelon normal form\<close>











end
